theory Spec2Isabelle
  imports Complex_Main "HOL-Library.Sublist"
begin

section \<open>JavaScript strings\<close>

text \<open>
  A JavaScript string is a finite sequence of UTF-16 code units. Code units are
  modelled as natural numbers; no arithmetic other than the case shift is done on them.
  \<open>ascii\<close> turns an ASCII literal into its code units.
\<close>

type_synonym jsstring = "nat list"

definition ascii :: "string \<Rightarrow> jsstring" where
  "ascii s = map of_char s"

text \<open>
  \<open>String.prototype.toLowerCase\<close> is the engine's Unicode lower-casing: it is not code of
  this program, it is not a code-unit-wise map (one code point may lower-case to several
  code units, and Greek capital sigma depends on its neighbours), and nothing below
  depends on what it does. Every function that calls it takes it as its first argument,
  named \<open>toLowerCase\<close>, and every general property holds for an arbitrary such function.
\<close>

type_synonym lower_casing = "jsstring \<Rightarrow> jsstring"

text \<open>
  \<open>String.prototype.includes\<close>: does \<open>k\<close> occur in \<open>s\<close> as a contiguous run of code units?
\<close>

fun str_includes :: "jsstring \<Rightarrow> jsstring \<Rightarrow> bool" where
  "str_includes [] k = (k = [])"
| "str_includes (c # cs) k = (prefix k (c # cs) \<or> str_includes cs k)"

text \<open>
  \<open>String.prototype.trim\<close> removes leading and trailing WhiteSpace and LineTerminator
  code points (ECMAScript 2015 and later).
\<close>

definition is_js_space :: "nat \<Rightarrow> bool" where
  "is_js_space c =
     (c = 0x09 \<or> c = 0x0A \<or> c = 0x0B \<or> c = 0x0C \<or> c = 0x0D \<or> c = 0x20 \<or> c = 0xA0 \<or>
      c = 0x1680 \<or> (0x2000 \<le> c \<and> c \<le> 0x200A) \<or> c = 0x2028 \<or> c = 0x2029 \<or>
      c = 0x202F \<or> c = 0x205F \<or> c = 0x3000 \<or> c = 0xFEFF)"

definition trim :: "jsstring \<Rightarrow> jsstring" where
  "trim s = rev (dropWhile is_js_space (rev (dropWhile is_js_space s)))"

section \<open>constants.ts\<close>

text \<open>
  \<open>LANGUAGE_KEYWORDS\<close> is an object literal with string keys; \<open>Object.entries\<close> and
  \<open>Object.keys\<close> enumerate it in definition order, so it is an association list.
\<close>

definition LANGUAGE_KEYWORDS :: "(jsstring \<times> jsstring list) list" where
  "LANGUAGE_KEYWORDS =
     [(ascii ''japanese'',
        [[0x65E5, 0x672C, 0x8A9E],
         [0x306B, 0x307B, 0x3093, 0x3054],
         [0x548C, 0x8A33],
         ascii ''nihongo'',
         ascii ''japanese'',
         ascii ''japan'',
         [0xC77C, 0xBCF8, 0xC5B4],
         [0xC77C, 0xBCF8],
         [0xB2C8, 0xD63C, 0xACE0]]),
      (ascii ''english'',
        [[0x82F1, 0x8A9E],
         [0x3048, 0x3044, 0x3054],
         [0x82F1, 0x8A33],
         ascii ''eigo'',
         ascii ''english'',
         ascii ''eng'',
         [0xC601, 0xC5B4],
         [0xC789, 0xAE00, 0xB9AC, 0xC2DC],
         [0xC601, 0xAD6D, 0xC5B4]]),
      (ascii ''korean'',
        [[0x97D3, 0x56FD, 0x8A9E],
         [0x304B, 0x3093, 0x3053, 0x304F, 0x3054],
         [0x30CF, 0x30F3, 0x30B0, 0x30EB],
         ascii ''kankokugo'',
         ascii ''korean'',
         ascii ''korea'',
         ascii ''hangul'',
         [0xD55C, 0xAD6D, 0xC5B4],
         [0xD55C, 0xAE00],
         [0xC870, 0xC120, 0xB9D0]])]"

definition DEFAULT_LANGUAGE :: jsstring where
  "DEFAULT_LANGUAGE = ascii ''english''"

definition getSupportedLanguages :: "jsstring list" where
  "getSupportedLanguages = map fst LANGUAGE_KEYWORDS"

section \<open>utils/languageDetection.ts: the keyword matcher\<close>

text \<open>
  The inner loop \<open>for (const keyword of keywords)\<close>: does it reach its \<open>return\<close>?
\<close>

fun keyword_loop :: "lower_casing \<Rightarrow> jsstring \<Rightarrow> jsstring list \<Rightarrow> bool" where
  "keyword_loop toLowerCase lowerText [] = False"
| "keyword_loop toLowerCase lowerText (keyword # rest) =
     (if str_includes lowerText (toLowerCase keyword) then True
      else keyword_loop toLowerCase lowerText rest)"

text \<open>
  The outer loop over \<open>Object.entries(LANGUAGE_KEYWORDS)\<close>; \<open>None\<close> is \<open>null\<close>.
\<close>

fun language_loop :: "lower_casing \<Rightarrow> jsstring \<Rightarrow> (jsstring \<times> jsstring list) list \<Rightarrow> jsstring option" where
  "language_loop toLowerCase lowerText [] = None"
| "language_loop toLowerCase lowerText ((language, keywords) # rest) =
     (if keyword_loop toLowerCase lowerText keywords then Some language
      else language_loop toLowerCase lowerText rest)"

definition detectLanguageByKeywords :: "lower_casing \<Rightarrow> jsstring \<Rightarrow> jsstring option" where
  "detectLanguageByKeywords toLowerCase text =
     (let lowerText = toLowerCase text
      in language_loop toLowerCase lowerText LANGUAGE_KEYWORDS)"

text \<open>
  \<open>LANGUAGE_KEYWORDS[language]\<close>, with the empty list for a missing key.
\<close>

definition keywords_of :: "jsstring \<Rightarrow> jsstring list" where
  "keywords_of language =
     (case map_of LANGUAGE_KEYWORDS language of None \<Rightarrow> [] | Some keywords \<Rightarrow> keywords)"

section \<open>The runtime boundary: thrown values, the OpenAI client, the logger\<close>

text \<open>
  Thrown values are \<open>Error\<close> objects, of which the program only ever reads \<open>.message\<close>.
  A property read on \<open>undefined\<close> or \<open>null\<close> throws a \<open>TypeError\<close>; its message text is the
  engine's (here as V8 words it) and no property below depends on it.
\<close>

datatype js_error = Error jsstring | TypeError jsstring

fun error_message :: "js_error \<Rightarrow> jsstring" where
  "error_message (Error m) = m"
| "error_message (TypeError m) = m"

definition cannot_read :: "string \<Rightarrow> string \<Rightarrow> js_error" where
  "cannot_read base prop =
     TypeError (ascii ''Cannot read properties of '' @ ascii base @
                ascii '' (reading '' @ [0x27] @ ascii prop @ [0x27] @ ascii '')'')"

text \<open>
  The argument of \<open>openaiClient.chat.completions.create\<close>, together with the key the client
  was built from, and the part of the response the program reads:
  \<open>response.choices[0].message.content\<close>, where \<open>content\<close> may be \<open>null\<close>.
  The temperature is the decimal literal \<open>0.3\<close>, kept as the fraction it is written as;
  the program only passes it on.
\<close>

datatype chat_message = ChatMessage (msg_role: jsstring) (msg_content: jsstring)

record openai_call =
  call_apiKey :: jsstring
  call_model :: jsstring
  call_messages :: "chat_message list"
  call_temperature :: rat

datatype choice = Choice (message_content: "jsstring option")

datatype chat_completion = ChatCompletion (choices: "choice list")

datatype api_outcome = Rejected js_error | Resolved chat_completion

text \<open>
  The service is outside the program: its outcome for a call may depend on the call and
  on every call made before. \<open>Rejected\<close> stands for any exception of the client, from its
  constructor on (bad credential, network error, error status).
\<close>

type_synonym openai = "openai_call list \<Rightarrow> openai_call \<Rightarrow> api_outcome"

datatype log_entry = LogInfo jsstring | LogError jsstring js_error

text \<open>
  What the program does to the outside: the calls it has made (building the client and
  awaiting \<open>create\<close> count as the one call they serve), the lines it has logged and the
  texts it has handed to the handler's callback, each oldest first.
\<close>

record io =
  requests :: "openai_call list"
  logged :: "log_entry list"
  sent :: "jsstring list"

text \<open>
  \<open>new OpenAI({ apiKey })\<close> and \<open>await openaiClient.chat.completions.create(c)\<close>: the call
  is recorded and the service decides its outcome.
\<close>

definition create_completion :: "openai \<Rightarrow> openai_call \<Rightarrow> io \<Rightarrow> api_outcome \<times> io" where
  "create_completion api c s = (api (requests s) c, s\<lparr>requests := requests s @ [c]\<rparr>)"

definition elizaLogger_error :: "jsstring \<Rightarrow> js_error \<Rightarrow> io \<Rightarrow> io" where
  "elizaLogger_error label err s = s\<lparr>logged := logged s @ [LogError label err]\<rparr>"

definition elizaLogger_info :: "jsstring \<Rightarrow> io \<Rightarrow> io" where
  "elizaLogger_info line s = s\<lparr>logged := logged s @ [LogInfo line]\<rparr>"

text \<open>
  \<open>response.choices[0].message.content\<close> followed by a method call on it: reading
  \<open>.message\<close> of a missing first choice throws, and so does \<open>.trim()\<close> on \<open>null\<close>.
\<close>

definition first_content :: "chat_completion \<Rightarrow> js_error + jsstring" where
  "first_content response =
     (case choices response of
        [] \<Rightarrow> Inl (cannot_read ''undefined'' ''message'')
      | c # _ \<Rightarrow>
         (case message_content c of
            None \<Rightarrow> Inl (cannot_read ''null'' ''trim'')
          | Some s \<Rightarrow> Inr s))"

text \<open>
  The value of an \<open>await\<close>ed call that is then read as above: the rejection, the
  \<open>TypeError\<close> of a malformed response, or the content string.
\<close>

definition reply_content :: "api_outcome \<Rightarrow> js_error + jsstring" where
  "reply_content outcome =
     (case outcome of
        Rejected err \<Rightarrow> Inl err
      | Resolved response \<Rightarrow> first_content response)"

text \<open>
  JavaScript truthiness of a \<open>string | null | undefined\<close> value: the string itself when
  it is non-empty.
\<close>

fun truthy :: "jsstring option \<Rightarrow> jsstring option" where
  "truthy None = None"
| "truthy (Some v) = (if v = [] then None else Some v)"

definition default_model :: jsstring where
  "default_model = ascii ''gpt-4o-mini''"

section \<open>utils/languageDetection.ts: the classifier and the chain\<close>

definition detection_call :: "jsstring \<Rightarrow> jsstring \<Rightarrow> jsstring \<Rightarrow> openai_call" where
  "detection_call text apiKey model =
     \<lparr>call_apiKey = apiKey,
      call_model = model,
      call_messages =
        [ChatMessage (ascii ''system'')
           (ascii ''Detect the language of the user's message and respond with only 'japanese', 'english', or 'korean'.''),
         ChatMessage (ascii ''user'') text],
      call_temperature = 3 / 10\<rparr>"

text \<open>The \<open>try\<close> block of \<open>detectLanguageByPrompt\<close>: \<open>Inl\<close> is a throw.\<close>

definition detectLanguageByPrompt_try ::
  "lower_casing \<Rightarrow> openai \<Rightarrow> jsstring \<Rightarrow> jsstring \<Rightarrow> jsstring \<Rightarrow> io \<Rightarrow> (js_error + jsstring) \<times> io" where
  "detectLanguageByPrompt_try toLowerCase api text apiKey model s =
     (case create_completion api (detection_call text apiKey model) s of
        (outcome, s1) \<Rightarrow>
          (case reply_content outcome of
             Inl err \<Rightarrow> (Inl err, s1)
           | Inr content \<Rightarrow>
               (let detectedLanguage = toLowerCase (trim content)
                in (Inr detectedLanguage, s1))))"

text \<open>
  \<open>detectLanguageByPrompt\<close>: \<open>Inr None\<close> is \<open>null\<close>, \<open>Inr (Some l)\<close> the string \<open>l\<close>, and
  \<open>Inl\<close> would be a rejection of the returned promise.
\<close>

definition detectLanguageByPrompt ::
  "lower_casing \<Rightarrow> openai \<Rightarrow> jsstring \<Rightarrow> jsstring \<Rightarrow> jsstring \<Rightarrow> io \<Rightarrow> (js_error + jsstring option) \<times> io" where
  "detectLanguageByPrompt toLowerCase api text apiKey model s =
     (case detectLanguageByPrompt_try toLowerCase api text apiKey model s of
        (Inr detectedLanguage, s1) \<Rightarrow> (Inr (Some detectedLanguage), s1)
      | (Inl err, s1) \<Rightarrow>
          (Inr None, elizaLogger_error (ascii ''Prompt language detection error:'') err s1))"

definition detectLanguage ::
  "lower_casing \<Rightarrow> openai \<Rightarrow> jsstring \<Rightarrow> jsstring \<Rightarrow> io \<Rightarrow> (js_error + jsstring) \<times> io" where
  "detectLanguage toLowerCase api text apiKey s =
     (case truthy (detectLanguageByKeywords toLowerCase text) of
        Some keywordResult \<Rightarrow> (Inr keywordResult, s)
      | None \<Rightarrow>
          (case detectLanguageByPrompt toLowerCase api text apiKey default_model s of
             (Inl err, s1) \<Rightarrow> (Inl err, s1)
           | (Inr r, s1) \<Rightarrow>
               (case truthy r of
                  Some promptResult \<Rightarrow> (Inr promptResult, s1)
                | None \<Rightarrow> (Inr DEFAULT_LANGUAGE, s1))))"

section \<open>utils/translation.ts\<close>

definition translation_prompt :: "jsstring \<Rightarrow> jsstring" where
  "translation_prompt targetLanguage =
     ascii ''You are a high-quality translator. Your task is to translate the given text to '' @
     targetLanguage @
     ascii ''.\<newline>IMPORTANT: Preserve all Markdown formatting. DO NOT add ANY explanations or comments.\<newline>ONLY provide the direct translation of the text. No introductions, no questions, no additional text.''"

definition translation_call ::
  "jsstring \<Rightarrow> jsstring \<Rightarrow> jsstring \<Rightarrow> jsstring \<Rightarrow> openai_call" where
  "translation_call text targetLanguage apiKey model =
     \<lparr>call_apiKey = apiKey,
      call_model = model,
      call_messages =
        [ChatMessage (ascii ''system'') (translation_prompt targetLanguage),
         ChatMessage (ascii ''user'') text],
      call_temperature = 3 / 10\<rparr>"

text \<open>The \<open>try\<close> block of \<open>translateText\<close>.\<close>

definition translateText_try ::
  "openai \<Rightarrow> jsstring \<Rightarrow> jsstring \<Rightarrow> jsstring \<Rightarrow> jsstring \<Rightarrow> io \<Rightarrow> (js_error + jsstring) \<times> io" where
  "translateText_try api text targetLanguage apiKey model s =
     (case create_completion api (translation_call text targetLanguage apiKey model) s of
        (outcome, s1) \<Rightarrow>
          (case reply_content outcome of
             Inl err \<Rightarrow> (Inl err, s1)
           | Inr content \<Rightarrow> (Inr (trim content), s1)))"

definition translateText ::
  "openai \<Rightarrow> jsstring \<Rightarrow> jsstring \<Rightarrow> jsstring \<Rightarrow> jsstring \<Rightarrow> io \<Rightarrow> (js_error + jsstring) \<times> io" where
  "translateText api text targetLanguage apiKey model s =
     (case translateText_try api text targetLanguage apiKey model s of
        (Inr translated, s1) \<Rightarrow> (Inr translated, s1)
      | (Inl err, s1) \<Rightarrow>
          (Inl (Error (ascii ''Error occurred during translation: '' @ error_message err)),
           elizaLogger_error (ascii ''Translation error:'') err s1))"

section \<open>actions/translateAction.ts: the handler\<close>

text \<open>
  The parts of the framework's values that the handler reads. A \<open>Memory\<close> has a \<open>userId\<close>
  and a \<open>content\<close> whose \<open>text\<close> the handler guards against being absent; the runtime
  answers \<open>getSetting("OPENAI_API_KEY")\<close> and \<open>composeState(message)\<close> and has an \<open>agentId\<close>.
\<close>

datatype content = Content (content_text: "jsstring option")

datatype memory = Memory (memory_userId: jsstring) (memory_content: "content option")

datatype agent_state = AgentState (recentMessagesData: "memory list")

record agent_runtime =
  setting_OPENAI_API_KEY :: "jsstring option"
  agentId :: jsstring
  composeState :: "memory \<Rightarrow> js_error + agent_state"

text \<open>
  \<open>await callback?.({ text })\<close>: with a callback the text is delivered, without one
  nothing happens. The callback and the logger are taken to complete normally.
\<close>

definition send :: "bool \<Rightarrow> jsstring \<Rightarrow> io \<Rightarrow> io" where
  "send callback txt s = (if callback then s\<lparr>sent := sent s @ [txt]\<rparr> else s)"

text \<open>
  The text of the last agent message, when the three-part guard
  \<open>!lastAgentMessage || !lastAgentMessage.content || !lastAgentMessage.content.text\<close> lets
  it through.
\<close>

definition guarded_text :: "memory option \<Rightarrow> jsstring option" where
  "guarded_text lastAgentMessage =
     (case lastAgentMessage of
        None \<Rightarrow> None
      | Some m \<Rightarrow>
         (case memory_content m of
            None \<Rightarrow> None
          | Some c \<Rightarrow> truthy (content_text c)))"

text \<open>
  \<open>if (!state) { state = await runtime.composeState(message); }\<close>: the state the handler
  goes on with, or the rejection of \<open>composeState\<close>.
\<close>

definition state_or_compose ::
  "agent_runtime \<Rightarrow> memory \<Rightarrow> agent_state option \<Rightarrow> js_error + agent_state" where
  "state_or_compose runtime message state =
     (case state of None \<Rightarrow> composeState runtime message | Some st \<Rightarrow> Inr st)"

text \<open>
  \<open>previousMessages.slice().reverse().find((msg) => msg.userId === runtime.agentId)\<close>
\<close>

definition last_agent_message :: "agent_runtime \<Rightarrow> memory list \<Rightarrow> memory option" where
  "last_agent_message runtime previousMessages =
     find (\<lambda>msg. memory_userId msg = agentId runtime) (rev previousMessages)"

text \<open>\<open>message.content.text || ""\<close>, once \<open>message.content\<close> has been read.\<close>

definition text_or_empty :: "content \<Rightarrow> jsstring" where
  "text_or_empty c = (case truthy (content_text c) of None \<Rightarrow> [] | Some t \<Rightarrow> t)"

text \<open>
  The outer \<open>try\<close> block. Its value is \<open>Inl\<close> for a throw that reaches the outer \<open>catch\<close>,
  \<open>Inr (Some b)\<close> for \<open>return b\<close> and \<open>Inr None\<close> for falling off the end of the
  function, which resolves the promise with \<open>undefined\<close>. The two imported functions
  \<open>detectLanguage\<close> and \<open>translateText\<close> are arguments, as they are module bindings.
\<close>

definition handler_try ::
  "(jsstring \<Rightarrow> jsstring \<Rightarrow> io \<Rightarrow> (js_error + jsstring) \<times> io) \<Rightarrow>
   (jsstring \<Rightarrow> jsstring \<Rightarrow> jsstring \<Rightarrow> io \<Rightarrow> (js_error + jsstring) \<times> io) \<Rightarrow>
   agent_runtime \<Rightarrow> memory \<Rightarrow> agent_state option \<Rightarrow> bool \<Rightarrow> io \<Rightarrow>
   (js_error + bool option) \<times> io" where
  "handler_try detect translate runtime message state callback s =
     (case truthy (setting_OPENAI_API_KEY runtime) of
        None \<Rightarrow>
          (Inr (Some False), send callback (ascii ''OpenAI API key is not configured'') s)
      | Some apiKey \<Rightarrow>
         (case state_or_compose runtime message state of
            Inl err \<Rightarrow> (Inl err, s)
          | Inr st \<Rightarrow>
             (let previousMessages = recentMessagesData st in
              if length previousMessages < 2
              then (Inr (Some False), send callback (ascii ''No previous message to translate'') s)
              else
               (let lastAgentMessage = last_agent_message runtime previousMessages
                in case guarded_text lastAgentMessage of
                     None \<Rightarrow>
                       (Inr (Some False),
                        send callback (ascii ''No agent message found to translate'') s)
                   | Some textToTranslate \<Rightarrow>
                      (case memory_content message of
                         None \<Rightarrow> (Inl (cannot_read ''undefined'' ''text''), s)
                       | Some c \<Rightarrow>
                          (let userInstruction = text_or_empty c
                           in case detect userInstruction apiKey s of
                                (Inl err, s1) \<Rightarrow>
                                  (Inr (Some False),
                                   send callback (ascii ''Could not detect target language'')
                                     (elizaLogger_error (ascii ''Language detection error:'') err s1))
                              | (Inr targetLanguage, s1) \<Rightarrow>
                                 (case translate textToTranslate targetLanguage apiKey
                                         (elizaLogger_info
                                            (ascii ''Detected target language: '' @ targetLanguage) s1) of
                                    (Inl err, s2) \<Rightarrow> (Inl err, s2)
                                  | (Inr translatedText, s2) \<Rightarrow>
                                      (Inr None, send callback translatedText s2))))))))"

definition handler_with ::
  "(jsstring \<Rightarrow> jsstring \<Rightarrow> io \<Rightarrow> (js_error + jsstring) \<times> io) \<Rightarrow>
   (jsstring \<Rightarrow> jsstring \<Rightarrow> jsstring \<Rightarrow> io \<Rightarrow> (js_error + jsstring) \<times> io) \<Rightarrow>
   agent_runtime \<Rightarrow> memory \<Rightarrow> agent_state option \<Rightarrow> bool \<Rightarrow> io \<Rightarrow>
   (js_error + bool option) \<times> io" where
  "handler_with detect translate runtime message state callback s =
     (case handler_try detect translate runtime message state callback s of
        (Inr r, s1) \<Rightarrow> (Inr r, s1)
      | (Inl err, s1) \<Rightarrow>
          (Inr (Some False),
           send callback (ascii ''Error during translation: '' @ error_message err)
             (elizaLogger_error (ascii ''Translation action error:'') err s1)))"

text \<open>
  \<open>translateAction.handler\<close> with the module's own imports; \<open>translateText\<close> is called
  with three arguments, so its \<open>model\<close> takes the default.
\<close>

definition handler ::
  "lower_casing \<Rightarrow> openai \<Rightarrow> agent_runtime \<Rightarrow> memory \<Rightarrow> agent_state option \<Rightarrow> bool \<Rightarrow> io \<Rightarrow>
   (js_error + bool option) \<times> io" where
  "handler toLowerCase api =
     handler_with (detectLanguage toLowerCase api)
       (\<lambda>txt targetLanguage apiKey. translateText api txt targetLanguage apiKey default_model)"

section \<open>Notions the properties are stated with\<close>

text \<open>
  \<open>occurs_in toLowerCase K text\<close>: the string \<open>text\<close> contains \<open>K\<close> as a substring when
  letter case is disregarded, that is, the lower-cased \<open>text\<close> has the lower-cased \<open>K\<close>
  as a substring. This is the sense in which the keyword matcher is specified to look
  for a trigger substring; it is stated with the lower-casing itself, so it covers
  every string the engine lower-cases onto the keyword.
  \<open>triggers toLowerCase keywords text\<close>: one of the trigger substrings \<open>keywords\<close> occurs so.
\<close>

definition occurs_in :: "lower_casing \<Rightarrow> jsstring \<Rightarrow> jsstring \<Rightarrow> bool" where
  "occurs_in toLowerCase K text = (\<exists>a b. toLowerCase text = a @ toLowerCase K @ b)"

definition triggers :: "lower_casing \<Rightarrow> jsstring list \<Rightarrow> jsstring \<Rightarrow> bool" where
  "triggers toLowerCase keywords text = (\<exists>K \<in> set keywords. occurs_in toLowerCase K text)"

text \<open>
  What the classifier's API call yields when \<open>detectLanguage\<close> is entered in state \<open>s\<close>:
  a failure, or the content string of the response.
\<close>

definition classifier_reply :: "openai \<Rightarrow> jsstring \<Rightarrow> jsstring \<Rightarrow> io \<Rightarrow> js_error + jsstring" where
  "classifier_reply api text apiKey s =
     reply_content (api (requests s) (detection_call text apiKey default_model))"

text \<open>
  The lower-casing of the examples. On a string made of ASCII and of caseless code units
  (the CJK ideographs, Kana and Hangul of the keyword table) \<open>String.prototype.toLowerCase\<close>
  moves \<open>A\<close>..\<open>Z\<close> to \<open>a\<close>..\<open>z\<close> and keeps every other code unit. The examples below apply
  \<open>toLowerCase_ascii\<close> to such strings only; it stands for the engine's function there and
  nowhere else.
\<close>

definition lower_unit :: "nat \<Rightarrow> nat" where
  "lower_unit c = (if 0x41 \<le> c \<and> c \<le> 0x5A then c + 0x20 else c)"

definition toLowerCase_ascii :: lower_casing where
  "toLowerCase_ascii s = map lower_unit s"

text \<open>
  The fixtures of the test-suite (\<open>__tests__/actions/translateAction.test.ts\<close>), and a
  program that has not acted yet.
\<close>

definition mockState :: agent_state where
  "mockState =
     AgentState
       [Memory (ascii ''user-id'') (Some (Content (Some (ascii ''User message'')))),
        Memory (ascii ''mock-agent-id'') (Some (Content (Some (ascii ''Agent message to translate''))))]"

definition mockRuntime :: agent_runtime where
  "mockRuntime =
     \<lparr>setting_OPENAI_API_KEY = Some (ascii ''mock-api-key''),
      agentId = ascii ''mock-agent-id'',
      composeState = (\<lambda>_. Inr mockState)\<rparr>"

definition mockMessage :: memory where
  "mockMessage = Memory (ascii ''user-id'') (Some (Content (Some (ascii ''translate this''))))"

definition io0 :: io where
  "io0 = \<lparr>requests = [], logged = [], sent = []\<rparr>"

definition api_rejecting :: "jsstring \<Rightarrow> openai" where
  "api_rejecting m = (\<lambda>_ _. Rejected (Error m))"

definition api_replying :: "jsstring \<Rightarrow> openai" where
  "api_replying c = (\<lambda>_ _. Resolved (ChatCompletion [Choice (Some c)]))"

text \<open>
  \<open>reaches_detection runtime message state apiKey src c\<close>: the handler gets as far as its
  call of \<open>detectLanguage\<close>, with the key \<open>apiKey\<close>, the agent text \<open>src\<close> to translate and
  the content \<open>c\<close> of the user's message: the key is set, the state is there or composed,
  it holds at least two messages, and the last agent message has a text.
\<close>

definition reaches_detection ::
  "agent_runtime \<Rightarrow> memory \<Rightarrow> agent_state option \<Rightarrow> jsstring \<Rightarrow> jsstring \<Rightarrow> content \<Rightarrow> bool" where
  "reaches_detection runtime message state apiKey src c =
     (truthy (setting_OPENAI_API_KEY runtime) = Some apiKey \<and>
      (case state_or_compose runtime message state of
         Inl _ \<Rightarrow> False
       | Inr st \<Rightarrow>
           \<not> length (recentMessagesData st) < 2 \<and>
           guarded_text (last_agent_message runtime (recentMessagesData st)) = Some src) \<and>
      memory_content message = Some c)"

text \<open>
  The test-suite's stand-ins for the two imported functions: \<open>mockResolvedValue\<close> and
  \<open>mockRejectedValue(new Error(m))\<close>, neither touching the outside.
\<close>

definition mockResolved :: "'a \<Rightarrow> io \<Rightarrow> (js_error + 'a) \<times> io" where
  "mockResolved v s = (Inr v, s)"

definition mockRejected :: "jsstring \<Rightarrow> io \<Rightarrow> (js_error + 'a) \<times> io" where
  "mockRejected m s = (Inl (Error m), s)"

section \<open>Properties of the keyword matcher\<close>

lemma str_includes_iff: "str_includes s k \<longleftrightarrow> (\<exists>a b. s = a @ k @ b)"
proof (induction s)
  case Nil
  then show ?case by auto
next
  case (Cons c cs)
  show ?case
  proof
    assume "str_includes (c # cs) k"
    then consider "prefix k (c # cs)" | "str_includes cs k" by auto
    then show "\<exists>a b. c # cs = a @ k @ b"
    proof cases
      case 1
      then obtain b where "c # cs = k @ b" by (auto simp: prefix_def)
      then have "c # cs = [] @ k @ b" by simp
      then show ?thesis by blast
    next
      case 2
      with Cons obtain a b where "cs = a @ k @ b" by blast
      then have "c # cs = (c # a) @ k @ b" by simp
      then show ?thesis by blast
    qed
  next
    assume "\<exists>a b. c # cs = a @ k @ b"
    then obtain a b where ab: "c # cs = a @ k @ b" by blast
    show "str_includes (c # cs) k"
    proof (cases a)
      case Nil
      with ab have "prefix k (c # cs)" by (simp add: prefix_def)
      then show ?thesis by simp
    next
      case (Cons x a')
      with ab have "cs = a' @ k @ b" by simp
      with Cons.IH have "str_includes cs k" by blast
      then show ?thesis by simp
    qed
  qed
qed

lemma occurs_in_iff:
  "occurs_in toLowerCase K text \<longleftrightarrow> str_includes (toLowerCase text) (toLowerCase K)"
  by (simp add: occurs_in_def str_includes_iff)

lemma map_eq_append_split:
  "map f xs = ys @ zs \<Longrightarrow> \<exists>us vs. xs = us @ vs \<and> map f us = ys \<and> map f vs = zs"
  by (auto simp: map_eq_append_conv)

text \<open>
  Where the lower-casing works code unit by code unit, as the engine's does on ASCII and
  caseless text, \<open>occurs_in\<close> says that some substring of \<open>text\<close> is \<open>K\<close> up to letter case.
\<close>

lemma occurs_in_code_unit_wise:
  "occurs_in (map f) K text \<longleftrightarrow> (\<exists>a K' b. text = a @ K' @ b \<and> map f K' = map f K)"
proof
  assume "occurs_in (map f) K text"
  then obtain a b where "map f text = a @ map f K @ b"
    by (auto simp: occurs_in_def)
  from map_eq_append_split [OF this]
  obtain u vs where u: "text = u @ vs" "map f vs = map f K @ b"
    by blast
  from map_eq_append_split [OF u(2)]
  obtain v w where "vs = v @ w" "map f v = map f K"
    by blast
  with u have "text = u @ v @ w \<and> map f v = map f K" by simp
  then show "\<exists>a K' b. text = a @ K' @ b \<and> map f K' = map f K" by (intro exI)
next
  assume "\<exists>a K' b. text = a @ K' @ b \<and> map f K' = map f K"
  then obtain a K' b where "text = a @ K' @ b" "map f K' = map f K" by blast
  then have "map f text = map f a @ map f K @ map f b" by simp
  then show "occurs_in (map f) K text"
    unfolding occurs_in_def by (intro exI)
qed

lemma language_loop_Some:
  "language_loop toLowerCase t tbl = Some L \<Longrightarrow>
   \<exists>pre ks post. tbl = pre @ (L, ks) # post \<and> keyword_loop toLowerCase t ks \<and>
      (\<forall>e \<in> set pre. \<not> keyword_loop toLowerCase t (snd e))"
proof (induction toLowerCase t tbl rule: language_loop.induct)
  case (1 toLowerCase lowerText)
  then show ?case by simp
next
  case (2 toLowerCase lowerText language kws rest)
  show ?case
  proof (cases "keyword_loop toLowerCase lowerText kws")
    case True
    with "2.prems" have "L = language" by simp
    with True have "(language, kws) # rest = [] @ (L, kws) # rest \<and>
        keyword_loop toLowerCase lowerText kws \<and>
        (\<forall>e \<in> set []. \<not> keyword_loop toLowerCase lowerText (snd e))" by simp
    then show ?thesis by (intro exI)
  next
    case False
    with "2.prems" have "language_loop toLowerCase lowerText rest = Some L" by simp
    with "2.IH" False obtain pre ks post where
      h: "rest = pre @ (L, ks) # post" "keyword_loop toLowerCase lowerText ks"
         "\<forall>e \<in> set pre. \<not> keyword_loop toLowerCase lowerText (snd e)" by auto
    from h False
    have "(language, kws) # rest = ((language, kws) # pre) @ (L, ks) # post \<and>
        keyword_loop toLowerCase lowerText ks \<and>
        (\<forall>e \<in> set ((language, kws) # pre). \<not> keyword_loop toLowerCase lowerText (snd e))"
      by simp
    then show ?thesis by (intro exI)
  qed
qed

lemma language_loop_first:
  "\<forall>e \<in> set pre. \<not> keyword_loop toLowerCase t (snd e) \<Longrightarrow> keyword_loop toLowerCase t ks \<Longrightarrow>
   language_loop toLowerCase t (pre @ (L, ks) # post) = Some L"
  by (induction pre) auto

lemma language_loop_None:
  "language_loop toLowerCase t tbl = None \<longleftrightarrow> (\<forall>e \<in> set tbl. \<not> keyword_loop toLowerCase t (snd e))"
  by (induction tbl) (auto split: if_splits)

lemma keyword_loop_iff: "keyword_loop toLowerCase (toLowerCase text) ks \<longleftrightarrow> triggers toLowerCase ks text"
  by (induction ks) (auto simp: triggers_def occurs_in_iff)

lemmas eval_defs = detectLanguageByKeywords_def LANGUAGE_KEYWORDS_def ascii_def
  toLowerCase_ascii_def lower_unit_def keywords_of_def

lemma distinct_languages: "distinct (map fst LANGUAGE_KEYWORDS)"
  by (simp add: LANGUAGE_KEYWORDS_def ascii_def)

text \<open>
  Claim C1, as amended. Let \<open>K\<close> be a trigger substring registered under the language \<open>L\<close>
  of the keyword table, and let the input contain \<open>K\<close> as a substring in any letter case:
  lower-cased, it contains the lower-cased \<open>K\<close>. If no trigger substring of a language
  listed before \<open>L\<close> occurs so in the input, the keyword matcher returns \<open>L\<close>. (For the
  first language of the table the condition is empty.) This holds whatever the engine's
  lower-casing does.
\<close>

theorem detectLanguageByKeywords_first_triggered:
  assumes "LANGUAGE_KEYWORDS = pre @ (L, ks) # post"
    and "K \<in> set ks"
    and "occurs_in toLowerCase K text"
    and "\<forall>e \<in> set pre. \<not> triggers toLowerCase (snd e) text"
  shows "detectLanguageByKeywords toLowerCase text = Some L"
proof -
  from assms(2,3) have "keyword_loop toLowerCase (toLowerCase text) ks"
    unfolding keyword_loop_iff triggers_def by blast
  moreover from assms(4) have "\<forall>e \<in> set pre. \<not> keyword_loop toLowerCase (toLowerCase text) (snd e)"
    unfolding keyword_loop_iff .
  ultimately show ?thesis
    unfolding detectLanguageByKeywords_def Let_def assms(1)
    by (rule language_loop_first [rotated])
qed

theorem detectLanguageByKeywords_first_triggered_witness:
  "occurs_in toLowerCase_ascii (ascii ''eng'') (ascii ''TRANSLATE TO ENGLISH'') \<and>
   \<not> triggers toLowerCase_ascii (keywords_of (ascii ''japanese'')) (ascii ''TRANSLATE TO ENGLISH'') \<and>
   detectLanguageByKeywords toLowerCase_ascii (ascii ''TRANSLATE TO ENGLISH'') = Some (ascii ''english'')"
proof -
  let ?t = "ascii ''TRANSLATE TO ENGLISH''"
  have tbl: "LANGUAGE_KEYWORDS =
      [(ascii ''japanese'', keywords_of (ascii ''japanese''))] @
      (ascii ''english'', keywords_of (ascii ''english'')) #
      [(ascii ''korean'', keywords_of (ascii ''korean''))]"
    by (simp add: LANGUAGE_KEYWORDS_def keywords_of_def ascii_def)
  have k: "ascii ''eng'' \<in> set (keywords_of (ascii ''english''))"
    by (simp add: LANGUAGE_KEYWORDS_def keywords_of_def ascii_def)
  have occ: "occurs_in toLowerCase_ascii (ascii ''eng'') ?t"
    by (simp add: occurs_in_iff ascii_def toLowerCase_ascii_def lower_unit_def)
  have no: "\<not> triggers toLowerCase_ascii (keywords_of (ascii ''japanese'')) ?t"
    unfolding keyword_loop_iff [symmetric]
    by (simp add: LANGUAGE_KEYWORDS_def keywords_of_def ascii_def toLowerCase_ascii_def lower_unit_def)
  then have pre: "\<forall>e \<in> set [(ascii ''japanese'', keywords_of (ascii ''japanese''))].
      \<not> triggers toLowerCase_ascii (snd e) ?t" by simp
  from detectLanguageByKeywords_first_triggered [OF tbl k occ pre] occ no
  show ?thesis by blast
qed

text \<open>
  Claim C1 as stated fails: \<open>english\<close> is registered under \<open>english\<close> and occurs in the
  ASCII string \<open>translate from japanese to english\<close>, for which the matcher returns
  \<open>japanese\<close>.
\<close>

theorem detectLanguageByKeywords_registered_counterexample:
  "ascii ''english'' \<in> set (keywords_of (ascii ''english'')) \<and>
   occurs_in toLowerCase_ascii (ascii ''english'') (ascii ''translate from japanese to english'') \<and>
   detectLanguageByKeywords toLowerCase_ascii (ascii ''translate from japanese to english'') = Some (ascii ''japanese'') \<and>
   ascii ''japanese'' \<noteq> ascii ''english''"
  by (simp add: occurs_in_iff eval_defs)

text \<open>
  Claim C2. Let the input contain trigger substrings of two languages, \<open>L1\<close> listed before
  \<open>L2\<close> in the keyword table. Wherever the substrings stand in the input, the matcher
  returns the first language of the table that has a trigger substring in the input: a
  language at or before \<open>L1\<close>, hence listed before \<open>L2\<close>, and never \<open>L2\<close>. Containment is
  the matcher's, up to letter case, and the property holds whatever the engine's
  lower-casing does.
\<close>

theorem detectLanguageByKeywords_precedence:
  assumes "LANGUAGE_KEYWORDS = pre @ (L1, ks1) # mid @ (L2, ks2) # post"
    and "triggers toLowerCase ks1 text"
    and "triggers toLowerCase ks2 text"
  shows "\<exists>pre0 L ks rest.
           pre @ [(L1, ks1)] = pre0 @ (L, ks) # rest \<and>
           detectLanguageByKeywords toLowerCase text = Some L \<and>
           triggers toLowerCase ks text \<and>
           (\<forall>e \<in> set pre0. \<not> triggers toLowerCase (snd e) text) \<and>
           L \<noteq> L2"
proof -
  let ?t = "toLowerCase text"
  let ?upto = "pre @ [(L1, ks1)]"
  let ?later = "mid @ (L2, ks2) # post"
  have tbl: "LANGUAGE_KEYWORDS = ?upto @ ?later" using assms(1) by simp
  have "language_loop toLowerCase ?t ?upto \<noteq> None"
    using assms(2) by (simp add: language_loop_None keyword_loop_iff)
  then obtain L where L: "language_loop toLowerCase ?t ?upto = Some L" by blast
  from language_loop_Some [OF L] obtain pre0 ks rest where
    h: "?upto = pre0 @ (L, ks) # rest" "keyword_loop toLowerCase ?t ks"
       "\<forall>e \<in> set pre0. \<not> keyword_loop toLowerCase ?t (snd e)" by blast
  have tbl': "LANGUAGE_KEYWORDS = pre0 @ (L, ks) # (rest @ ?later)"
    unfolding tbl h(1) by simp
  have res: "detectLanguageByKeywords toLowerCase text = Some L"
    unfolding detectLanguageByKeywords_def Let_def tbl'
    by (rule language_loop_first [OF h(3) h(2)])
  have "L \<in> fst ` set ?upto" unfolding h(1) by force
  moreover have "L2 \<in> fst ` set ?later" by force
  moreover have "distinct (map fst ?upto @ map fst ?later)"
    using distinct_languages unfolding tbl by simp
  ultimately have "L \<noteq> L2" by auto
  with h res have "?upto = pre0 @ (L, ks) # rest \<and>
           detectLanguageByKeywords toLowerCase text = Some L \<and>
           triggers toLowerCase ks text \<and>
           (\<forall>e \<in> set pre0. \<not> triggers toLowerCase (snd e) text) \<and>
           L \<noteq> L2"
    by (simp add: keyword_loop_iff)
  then show ?thesis by (intro exI)
qed

theorem detectLanguageByKeywords_precedence_witness:
  "triggers toLowerCase_ascii (keywords_of (ascii ''japanese'')) (ascii ''from English to Japanese'') \<and>
   triggers toLowerCase_ascii (keywords_of (ascii ''english'')) (ascii ''from English to Japanese'') \<and>
   detectLanguageByKeywords toLowerCase_ascii (ascii ''from English to Japanese'') = Some (ascii ''japanese'')"
proof -
  let ?t = "ascii ''from English to Japanese''"
  let ?jp = "(ascii ''japanese'', keywords_of (ascii ''japanese''))"
  have tbl: "LANGUAGE_KEYWORDS =
      [] @ ?jp # [] @
      (ascii ''english'', keywords_of (ascii ''english'')) #
      [(ascii ''korean'', keywords_of (ascii ''korean''))]"
    by (simp add: LANGUAGE_KEYWORDS_def keywords_of_def ascii_def)
  have jp: "triggers toLowerCase_ascii (keywords_of (ascii ''japanese'')) ?t"
    unfolding keyword_loop_iff [symmetric]
    by (simp add: LANGUAGE_KEYWORDS_def keywords_of_def ascii_def toLowerCase_ascii_def lower_unit_def)
  have en: "triggers toLowerCase_ascii (keywords_of (ascii ''english'')) ?t"
    unfolding keyword_loop_iff [symmetric]
    by (simp add: LANGUAGE_KEYWORDS_def keywords_of_def ascii_def toLowerCase_ascii_def lower_unit_def)
  from detectLanguageByKeywords_precedence [OF tbl jp en]
  obtain pre0 L ks rest where
    "[] @ [?jp] = pre0 @ (L, ks) # rest" "detectLanguageByKeywords toLowerCase_ascii ?t = Some L"
    by blast
  then have "detectLanguageByKeywords toLowerCase_ascii ?t = Some (ascii ''japanese'')"
    by (auto simp: append_eq_Cons_conv Cons_eq_append_conv)
  with jp en show ?thesis by blast
qed

lemma language_loop_fst:
  "language_loop toLowerCase t tbl = Some l \<Longrightarrow> l \<in> fst ` set tbl"
  by (induction tbl) (auto split: if_splits)

text \<open>
  Claim C9. Whatever the input string, the keyword matcher returns either \<open>null\<close> or one
  of the keys of the keyword table, that is, a member of \<open>getSupportedLanguages()\<close>.
\<close>

theorem detectLanguageByKeywords_supported:
  "detectLanguageByKeywords toLowerCase text = None \<or>
   (\<exists>l. detectLanguageByKeywords toLowerCase text = Some l \<and> l \<in> set getSupportedLanguages)"
proof (cases "detectLanguageByKeywords toLowerCase text")
  case None
  then show ?thesis by simp
next
  case (Some l)
  then have "l \<in> fst ` set LANGUAGE_KEYWORDS"
    by (auto simp: detectLanguageByKeywords_def Let_def dest: language_loop_fst)
  then show ?thesis
    using Some by (simp add: getSupportedLanguages_def)
qed

section \<open>Properties of the inference chain\<close>

lemma keys_nonempty: "[] \<notin> fst ` set LANGUAGE_KEYWORDS"
  by (simp add: LANGUAGE_KEYWORDS_def ascii_def)

lemma truthy_keywordResult:
  "truthy (detectLanguageByKeywords toLowerCase text) = detectLanguageByKeywords toLowerCase text"
proof (cases "detectLanguageByKeywords toLowerCase text")
  case None
  then show ?thesis by simp
next
  case (Some l)
  then have "l \<in> fst ` set LANGUAGE_KEYWORDS"
    by (auto simp: detectLanguageByKeywords_def Let_def dest: language_loop_fst)
  with keys_nonempty have "l \<noteq> []" by metis
  with Some show ?thesis by simp
qed

lemma DEFAULT_LANGUAGE_nonempty: "DEFAULT_LANGUAGE \<noteq> []"
  by (simp add: DEFAULT_LANGUAGE_def ascii_def)

lemma truthy_Some: "truthy r = Some v \<longleftrightarrow> r = Some v \<and> v \<noteq> []"
  by (cases r) auto

lemma truthy_None: "truthy r = None \<longleftrightarrow> r = None \<or> r = Some []"
  by (cases r) auto

lemma detectLanguageByPrompt_try_eq:
  "detectLanguageByPrompt_try toLowerCase api text apiKey model s =
     (map_sum id (\<lambda>c. toLowerCase (trim c))
        (reply_content (api (requests s) (detection_call text apiKey model))),
      s\<lparr>requests := requests s @ [detection_call text apiKey model]\<rparr>)"
  by (simp add: detectLanguageByPrompt_try_def create_completion_def Let_def split: sum.split)

lemma detectLanguageByPrompt_fails:
  "reply_content (api (requests s) (detection_call text apiKey model)) = Inl e \<Longrightarrow>
   detectLanguageByPrompt toLowerCase api text apiKey model s =
     (Inr None,
      elizaLogger_error (ascii ''Prompt language detection error:'') e
        (s\<lparr>requests := requests s @ [detection_call text apiKey model]\<rparr>))"
  by (simp add: detectLanguageByPrompt_def detectLanguageByPrompt_try_eq)

lemma detectLanguageByPrompt_replies:
  "reply_content (api (requests s) (detection_call text apiKey model)) = Inr c \<Longrightarrow>
   detectLanguageByPrompt toLowerCase api text apiKey model s =
     (Inr (Some (toLowerCase (trim c))),
      s\<lparr>requests := requests s @ [detection_call text apiKey model]\<rparr>)"
  by (simp add: detectLanguageByPrompt_def detectLanguageByPrompt_try_eq)

lemma detectLanguageByPrompt_Inr:
  "\<exists>r. fst (detectLanguageByPrompt toLowerCase api text apiKey model s) = Inr r"
  by (cases "reply_content (api (requests s) (detection_call text apiKey model))")
     (simp_all add: detectLanguageByPrompt_fails detectLanguageByPrompt_replies)

lemma detectLanguage_hit:
  "detectLanguageByKeywords toLowerCase text = Some l \<Longrightarrow> detectLanguage toLowerCase api text apiKey s = (Inr l, s)"
  using truthy_keywordResult [of toLowerCase "text"] by (simp add: detectLanguage_def)

lemma detectLanguage_miss_fails:
  "detectLanguageByKeywords toLowerCase text = None \<Longrightarrow> classifier_reply api text apiKey s = Inl e \<Longrightarrow>
   fst (detectLanguage toLowerCase api text apiKey s) = Inr DEFAULT_LANGUAGE"
  by (simp add: detectLanguage_def classifier_reply_def detectLanguageByPrompt_fails)

lemma detectLanguage_miss_replies:
  "detectLanguageByKeywords toLowerCase text = None \<Longrightarrow> classifier_reply api text apiKey s = Inr c \<Longrightarrow>
   fst (detectLanguage toLowerCase api text apiKey s) =
     Inr (if toLowerCase (trim c) = [] then DEFAULT_LANGUAGE else toLowerCase (trim c))"
  by (simp add: detectLanguage_def classifier_reply_def detectLanguageByPrompt_replies)

text \<open>
  Claim C3. When the keyword matcher returns a language for the input, \<open>detectLanguage\<close>
  returns exactly that language and leaves the outside untouched: no call is issued, and
  the result is the same for any two behaviours \<open>api\<close>, \<open>api'\<close> of the text-generation service.
\<close>

theorem detectLanguage_keyword_first:
  assumes "detectLanguageByKeywords toLowerCase text = Some l"
  shows "detectLanguage toLowerCase api text apiKey s = (Inr l, s) \<and>
         detectLanguage toLowerCase api' text apiKey s = detectLanguage toLowerCase api text apiKey s \<and>
         requests (snd (detectLanguage toLowerCase api text apiKey s)) = requests s"
  using assms by (simp add: detectLanguage_hit)

lemmas run_defs = detectLanguageByKeywords_def LANGUAGE_KEYWORDS_def ascii_def
  toLowerCase_ascii_def lower_unit_def keywords_of_def DEFAULT_LANGUAGE_def io0_def
  api_rejecting_def api_replying_def

theorem detectLanguage_keyword_first_witness:
  "detectLanguageByKeywords toLowerCase_ascii [0x65E5, 0x672C, 0x8A9E, 0x306B, 0x7FFB, 0x8A33] = Some (ascii ''japanese'') \<and>
   detectLanguage toLowerCase_ascii (api_rejecting (ascii ''API Error'')) [0x65E5, 0x672C, 0x8A9E, 0x306B, 0x7FFB, 0x8A33]
       (ascii ''mock-api-key'') io0 = (Inr (ascii ''japanese''), io0) \<and>
   detectLanguage toLowerCase_ascii (api_replying (ascii ''korean'')) [0x65E5, 0x672C, 0x8A9E, 0x306B, 0x7FFB, 0x8A33]
       (ascii ''mock-api-key'') io0 =
   detectLanguage toLowerCase_ascii (api_rejecting (ascii ''API Error'')) [0x65E5, 0x672C, 0x8A9E, 0x306B, 0x7FFB, 0x8A33]
       (ascii ''mock-api-key'') io0"
proof -
  have k: "detectLanguageByKeywords toLowerCase_ascii [0x65E5, 0x672C, 0x8A9E, 0x306B, 0x7FFB, 0x8A33] =
      Some (ascii ''japanese'')"
    by (simp add: run_defs)
  from detectLanguage_keyword_first [OF k] k show ?thesis by blast
qed

text \<open>
  Claim C4. \<open>detectLanguage\<close> never fails: for every input, credential and behaviour of
  the service it returns a (non-empty) language string. When the keyword matcher finds
  nothing and the classifier's call fails or its reply normalizes to the empty string, the
  result is the default language \<open>english\<close>.
\<close>

theorem detectLanguage_total:
  "(\<exists>l. fst (detectLanguage toLowerCase api text apiKey s) = Inr l \<and> l \<noteq> []) \<and>
   (detectLanguageByKeywords toLowerCase text = None \<and>
    ((\<exists>e. classifier_reply api text apiKey s = Inl e) \<or>
     (\<exists>c. classifier_reply api text apiKey s = Inr c \<and> toLowerCase (trim c) = []))
    \<longrightarrow> fst (detectLanguage toLowerCase api text apiKey s) = Inr DEFAULT_LANGUAGE)"
proof (intro conjI impI)
  show "\<exists>l. fst (detectLanguage toLowerCase api text apiKey s) = Inr l \<and> l \<noteq> []"
  proof (cases "detectLanguageByKeywords toLowerCase text")
    case (Some l)
    moreover from Some have "l \<noteq> []"
      using truthy_keywordResult [of toLowerCase "text"] by (auto simp: truthy_Some)
    ultimately show ?thesis by (simp add: detectLanguage_hit)
  next
    case None
    show ?thesis
    proof (cases "classifier_reply api text apiKey s")
      case (Inl e)
      with None show ?thesis
        by (simp add: detectLanguage_miss_fails DEFAULT_LANGUAGE_nonempty)
    next
      case (Inr c)
      with None show ?thesis
        by (simp add: detectLanguage_miss_replies DEFAULT_LANGUAGE_nonempty)
    qed
  qed
next
  assume "detectLanguageByKeywords toLowerCase text = None \<and>
    ((\<exists>e. classifier_reply api text apiKey s = Inl e) \<or>
     (\<exists>c. classifier_reply api text apiKey s = Inr c \<and> toLowerCase (trim c) = []))"
  then show "fst (detectLanguage toLowerCase api text apiKey s) = Inr DEFAULT_LANGUAGE"
    by (auto simp: detectLanguage_miss_fails detectLanguage_miss_replies)
qed

lemma trim_spaces: "trim (ascii ''  '') = []"
  by (simp add: trim_def ascii_def is_js_space_def)

theorem detectLanguage_total_witness:
  "detectLanguageByKeywords toLowerCase_ascii (ascii ''xyz'') = None \<and>
   classifier_reply (api_rejecting (ascii ''API Error'')) (ascii ''xyz'') (ascii ''mock-api-key'') io0 =
     Inl (Error (ascii ''API Error'')) \<and>
   fst (detectLanguage toLowerCase_ascii (api_rejecting (ascii ''API Error'')) (ascii ''xyz'') (ascii ''mock-api-key'') io0) =
     Inr (ascii ''english'') \<and>
   classifier_reply (api_replying (ascii ''  '')) (ascii ''xyz'') (ascii ''mock-api-key'') io0 =
     Inr (ascii ''  '') \<and>
   toLowerCase_ascii (trim (ascii ''  '')) = [] \<and>
   fst (detectLanguage toLowerCase_ascii (api_replying (ascii ''  '')) (ascii ''xyz'') (ascii ''mock-api-key'') io0) =
     Inr (ascii ''english'')"
proof -
  have k: "detectLanguageByKeywords toLowerCase_ascii (ascii ''xyz'') = None"
    by (simp add: run_defs)
  have r1: "classifier_reply (api_rejecting (ascii ''API Error'')) (ascii ''xyz'') (ascii ''mock-api-key'') io0 =
     Inl (Error (ascii ''API Error''))"
    by (simp add: classifier_reply_def api_rejecting_def reply_content_def)
  have r2: "classifier_reply (api_replying (ascii ''  '')) (ascii ''xyz'') (ascii ''mock-api-key'') io0 =
     Inr (ascii ''  '')"
    by (simp add: classifier_reply_def api_replying_def reply_content_def first_content_def)
  have n: "toLowerCase_ascii (trim (ascii ''  '')) = []"
    by (simp add: trim_spaces toLowerCase_ascii_def)
  from detectLanguage_total [of toLowerCase_ascii "api_rejecting (ascii ''API Error'')" "ascii ''xyz''" "ascii ''mock-api-key''" io0]
       detectLanguage_total [of toLowerCase_ascii "api_replying (ascii ''  '')" "ascii ''xyz''" "ascii ''mock-api-key''" io0]
       k r1 r2 n
  show ?thesis by (simp add: DEFAULT_LANGUAGE_def)
qed

section \<open>Properties of the classifier and the translator\<close>

text \<open>
  Claim C5. \<open>detectLanguageByPrompt\<close> never rejects: its result is always a value. When
  the API call fails (the client throws or the request is rejected) or the response is
  malformed, the failure \<open>e\<close> is caught and logged and the result is \<open>null\<close>.
\<close>

theorem detectLanguageByPrompt_catches:
  "(\<exists>r. fst (detectLanguageByPrompt toLowerCase api text apiKey model s) = Inr r) \<and>
   (reply_content (api (requests s) (detection_call text apiKey model)) = Inl e \<longrightarrow>
      fst (detectLanguageByPrompt toLowerCase api text apiKey model s) = Inr None \<and>
      logged (snd (detectLanguageByPrompt toLowerCase api text apiKey model s)) =
        logged s @ [LogError (ascii ''Prompt language detection error:'') e])"
  using detectLanguageByPrompt_Inr [of toLowerCase api "text" apiKey model s]
  by (simp add: detectLanguageByPrompt_fails elizaLogger_error_def)

theorem detectLanguageByPrompt_catches_witness:
  "reply_content (api_rejecting (ascii ''API Error'') (requests io0)
      (detection_call (ascii ''translate'') (ascii ''mock-api-key'') default_model)) =
     Inl (Error (ascii ''API Error'')) \<and>
   fst (detectLanguageByPrompt toLowerCase_ascii (api_rejecting (ascii ''API Error'')) (ascii ''translate'')
      (ascii ''mock-api-key'') default_model io0) = Inr None"
proof -
  have r: "reply_content (api_rejecting (ascii ''API Error'') (requests io0)
      (detection_call (ascii ''translate'') (ascii ''mock-api-key'') default_model)) =
     Inl (Error (ascii ''API Error''))"
    by (simp add: api_rejecting_def reply_content_def)
  from detectLanguageByPrompt_catches [of toLowerCase_ascii "api_rejecting (ascii ''API Error'')" "ascii ''translate''"
      "ascii ''mock-api-key''" default_model io0 "Error (ascii ''API Error'')"] r
  show ?thesis by simp
qed

text \<open>
  Claim C6 as stated fails: for a reply of two spaces, which normalizes to the empty
  string, \<open>detectLanguageByPrompt\<close> returns the empty string, not \<open>null\<close>.
\<close>

theorem detectLanguageByPrompt_empty_reply_counterexample:
  "reply_content (api_replying (ascii ''  '') (requests io0)
      (detection_call (ascii ''xyz'') (ascii ''mock-api-key'') default_model)) = Inr (ascii ''  '') \<and>
   toLowerCase_ascii (trim (ascii ''  '')) = [] \<and>
   fst (detectLanguageByPrompt toLowerCase_ascii (api_replying (ascii ''  '')) (ascii ''xyz'')
      (ascii ''mock-api-key'') default_model io0) = Inr (Some []) \<and>
   fst (detectLanguageByPrompt toLowerCase_ascii (api_replying (ascii ''  '')) (ascii ''xyz'')
      (ascii ''mock-api-key'') default_model io0) \<noteq> Inr None"
proof -
  have r: "reply_content (api_replying (ascii ''  '') (requests io0)
      (detection_call (ascii ''xyz'') (ascii ''mock-api-key'') default_model)) = Inr (ascii ''  '')"
    by (simp add: api_replying_def reply_content_def first_content_def)
  have n: "toLowerCase_ascii (trim (ascii ''  '')) = []"
    by (simp add: trim_spaces toLowerCase_ascii_def)
  from detectLanguageByPrompt_replies
         [of "api_replying (ascii ''  '')" io0 "ascii ''xyz''" "ascii ''mock-api-key''" default_model
             "ascii ''  ''" toLowerCase_ascii, OF r] r n
  show ?thesis by simp
qed

text \<open>
  Claim C6, as amended. When the reply normalizes (trim, then lower-case) to the empty
  string, \<open>detectLanguageByPrompt\<close> returns that empty string itself; it is the caller
  \<open>detectLanguage\<close> that treats it as no match: with no keyword hit it goes on to the
  default language, as it does for \<open>null\<close>.
\<close>

theorem detectLanguageByPrompt_empty_reply:
  assumes "reply_content (api (requests s) (detection_call text apiKey model)) = Inr c"
    and "toLowerCase (trim c) = []"
  shows "fst (detectLanguageByPrompt toLowerCase api text apiKey model s) = Inr (Some []) \<and>
         (model = default_model \<and> detectLanguageByKeywords toLowerCase text = None \<longrightarrow>
            fst (detectLanguage toLowerCase api text apiKey s) = Inr DEFAULT_LANGUAGE)"
  using assms
  by (auto simp: detectLanguageByPrompt_replies detectLanguage_miss_replies classifier_reply_def)

theorem detectLanguageByPrompt_empty_reply_witness:
  "reply_content (api_replying [] (requests io0)
      (detection_call (ascii ''xyz'') (ascii ''mock-api-key'') default_model)) = Inr [] \<and>
   toLowerCase_ascii (trim []) = [] \<and>
   detectLanguageByKeywords toLowerCase_ascii (ascii ''xyz'') = None \<and>
   fst (detectLanguageByPrompt toLowerCase_ascii (api_replying []) (ascii ''xyz'') (ascii ''mock-api-key'')
      default_model io0) = Inr (Some []) \<and>
   fst (detectLanguage toLowerCase_ascii (api_replying []) (ascii ''xyz'') (ascii ''mock-api-key'') io0) =
     Inr (ascii ''english'')"
proof -
  have r: "reply_content (api_replying [] (requests io0)
      (detection_call (ascii ''xyz'') (ascii ''mock-api-key'') default_model)) = Inr []"
    by (simp add: api_replying_def reply_content_def first_content_def)
  have n: "toLowerCase_ascii (trim []) = []"
    by (simp add: trim_def toLowerCase_ascii_def)
  have k: "detectLanguageByKeywords toLowerCase_ascii (ascii ''xyz'') = None"
    by (simp add: run_defs)
  from detectLanguageByPrompt_empty_reply
         [of "api_replying []" io0 "ascii ''xyz''" "ascii ''mock-api-key''" default_model "[]" toLowerCase_ascii, OF r n]
       r n k
  show ?thesis by (simp add: DEFAULT_LANGUAGE_def)
qed

lemma translateText_try_eq:
  "translateText_try api text targetLanguage apiKey model s =
     (map_sum id trim
        (reply_content (api (requests s) (translation_call text targetLanguage apiKey model))),
      s\<lparr>requests := requests s @ [translation_call text targetLanguage apiKey model]\<rparr>)"
  by (simp add: translateText_try_def create_completion_def split: sum.split)

lemma translateText_requests:
  "requests (snd (translateText api text targetLanguage apiKey model s)) =
     requests s @ [translation_call text targetLanguage apiKey model]"
  by (cases "reply_content (api (requests s) (translation_call text targetLanguage apiKey model))")
     (simp_all add: translateText_def translateText_try_eq elizaLogger_error_def)

lemma str_includes_prefix: "str_includes (k @ b) k"
  unfolding str_includes_iff by (metis append_Nil)

lemma str_includes_append: "str_includes (a @ k) k"
  unfolding str_includes_iff by (metis append_Nil2)

text \<open>
  Claim C7. When the API call of \<open>translateText\<close> fails with \<open>e\<close>, \<open>translateText\<close> throws
  an \<open>Error\<close> whose message is \<open>Error occurred during translation: \<close> followed by the message
  of \<open>e\<close>, and it has issued exactly one call: there is no retry.
\<close>

theorem translateText_wraps_failure:
  assumes "reply_content (api (requests s) (translation_call text targetLanguage apiKey model)) = Inl e"
  shows "\<exists>m. fst (translateText api text targetLanguage apiKey model s) = Inl (Error m) \<and>
           m = ascii ''Error occurred during translation: '' @ error_message e \<and>
           str_includes m (ascii ''Error occurred during translation'') \<and>
           str_includes m (error_message e) \<and>
           requests (snd (translateText api text targetLanguage apiKey model s)) =
             requests s @ [translation_call text targetLanguage apiKey model]"
proof -
  let ?m = "ascii ''Error occurred during translation: '' @ error_message e"
  have "fst (translateText api text targetLanguage apiKey model s) = Inl (Error ?m)"
    using assms by (simp add: translateText_def translateText_try_eq)
  moreover have "ascii ''Error occurred during translation: '' =
      ascii ''Error occurred during translation'' @ ascii '': ''"
    by (simp add: ascii_def)
  then have "str_includes ?m (ascii ''Error occurred during translation'')"
    by (simp add: str_includes_prefix)
  moreover have "str_includes ?m (error_message e)"
    by (rule str_includes_append)
  ultimately show ?thesis
    using translateText_requests by blast
qed

theorem translateText_wraps_failure_witness:
  "reply_content (api_rejecting (ascii ''API Error'') (requests io0)
      (translation_call (ascii ''Hello'') (ascii ''japanese'') (ascii ''mock-api-key'') default_model)) =
     Inl (Error (ascii ''API Error'')) \<and>
   fst (translateText (api_rejecting (ascii ''API Error'')) (ascii ''Hello'') (ascii ''japanese'')
      (ascii ''mock-api-key'') default_model io0) =
     Inl (Error (ascii ''Error occurred during translation: API Error'')) \<and>
   requests (snd (translateText (api_rejecting (ascii ''API Error'')) (ascii ''Hello'') (ascii ''japanese'')
      (ascii ''mock-api-key'') default_model io0)) =
     [translation_call (ascii ''Hello'') (ascii ''japanese'') (ascii ''mock-api-key'') default_model]"
proof -
  have r: "reply_content (api_rejecting (ascii ''API Error'') (requests io0)
      (translation_call (ascii ''Hello'') (ascii ''japanese'') (ascii ''mock-api-key'') default_model)) =
     Inl (Error (ascii ''API Error''))"
    by (simp add: api_rejecting_def reply_content_def)
  have a: "ascii ''Error occurred during translation: '' @ ascii ''API Error'' =
      ascii ''Error occurred during translation: API Error''"
    by (simp add: ascii_def)
  from translateText_wraps_failure
         [of "api_rejecting (ascii ''API Error'')" io0 "ascii ''Hello''" "ascii ''japanese''"
             "ascii ''mock-api-key''" default_model "Error (ascii ''API Error'')", OF r] r a
  show ?thesis
    by (auto simp: io0_def)
qed

section \<open>Properties of the handler\<close>

lemma handler_no_key:
  "truthy (setting_OPENAI_API_KEY runtime) = None \<Longrightarrow>
   handler_with detect translate runtime message state callback s =
     (Inr (Some False), send callback (ascii ''OpenAI API key is not configured'') s)"
  by (simp add: handler_with_def handler_try_def)

lemma handler_compose_fails:
  "truthy (setting_OPENAI_API_KEY runtime) = Some apiKey \<Longrightarrow>
   state_or_compose runtime message state = Inl e \<Longrightarrow>
   handler_with detect translate runtime message state callback s =
     (Inr (Some False),
      send callback (ascii ''Error during translation: '' @ error_message e)
        (elizaLogger_error (ascii ''Translation action error:'') e s))"
  by (simp add: handler_with_def handler_try_def)

lemma handler_few_messages:
  "truthy (setting_OPENAI_API_KEY runtime) = Some apiKey \<Longrightarrow>
   state_or_compose runtime message state = Inr st \<Longrightarrow>
   length (recentMessagesData st) < 2 \<Longrightarrow>
   handler_with detect translate runtime message state callback s =
     (Inr (Some False), send callback (ascii ''No previous message to translate'') s)"
  by (simp add: handler_with_def handler_try_def)

lemma handler_no_agent_text:
  "truthy (setting_OPENAI_API_KEY runtime) = Some apiKey \<Longrightarrow>
   state_or_compose runtime message state = Inr st \<Longrightarrow>
   \<not> length (recentMessagesData st) < 2 \<Longrightarrow>
   guarded_text (last_agent_message runtime (recentMessagesData st)) = None \<Longrightarrow>
   handler_with detect translate runtime message state callback s =
     (Inr (Some False), send callback (ascii ''No agent message found to translate'') s)"
  by (simp add: handler_with_def handler_try_def)

lemma handler_no_content:
  "truthy (setting_OPENAI_API_KEY runtime) = Some apiKey \<Longrightarrow>
   state_or_compose runtime message state = Inr st \<Longrightarrow>
   \<not> length (recentMessagesData st) < 2 \<Longrightarrow>
   guarded_text (last_agent_message runtime (recentMessagesData st)) = Some src \<Longrightarrow>
   memory_content message = None \<Longrightarrow>
   fst (handler_with detect translate runtime message state callback s) = Inr (Some False)"
  by (simp add: handler_with_def handler_try_def)

lemma handler_detect_fails:
  "truthy (setting_OPENAI_API_KEY runtime) = Some apiKey \<Longrightarrow>
   state_or_compose runtime message state = Inr st \<Longrightarrow>
   \<not> length (recentMessagesData st) < 2 \<Longrightarrow>
   guarded_text (last_agent_message runtime (recentMessagesData st)) = Some src \<Longrightarrow>
   memory_content message = Some c \<Longrightarrow>
   detect (text_or_empty c) apiKey s = (Inl e, s1) \<Longrightarrow>
   handler_with detect translate runtime message state callback s =
     (Inr (Some False),
      send callback (ascii ''Could not detect target language'')
        (elizaLogger_error (ascii ''Language detection error:'') e s1))"
  by (simp add: handler_with_def handler_try_def)

lemma handler_translate_fails:
  "truthy (setting_OPENAI_API_KEY runtime) = Some apiKey \<Longrightarrow>
   state_or_compose runtime message state = Inr st \<Longrightarrow>
   \<not> length (recentMessagesData st) < 2 \<Longrightarrow>
   guarded_text (last_agent_message runtime (recentMessagesData st)) = Some src \<Longrightarrow>
   memory_content message = Some c \<Longrightarrow>
   detect (text_or_empty c) apiKey s = (Inr lang, s1) \<Longrightarrow>
   translate src lang apiKey
     (elizaLogger_info (ascii ''Detected target language: '' @ lang) s1) = (Inl e, s2) \<Longrightarrow>
   handler_with detect translate runtime message state callback s =
     (Inr (Some False),
      send callback (ascii ''Error during translation: '' @ error_message e)
        (elizaLogger_error (ascii ''Translation action error:'') e s2))"
  by (simp add: handler_with_def handler_try_def)

lemma handler_success:
  "truthy (setting_OPENAI_API_KEY runtime) = Some apiKey \<Longrightarrow>
   state_or_compose runtime message state = Inr st \<Longrightarrow>
   \<not> length (recentMessagesData st) < 2 \<Longrightarrow>
   guarded_text (last_agent_message runtime (recentMessagesData st)) = Some src \<Longrightarrow>
   memory_content message = Some c \<Longrightarrow>
   detect (text_or_empty c) apiKey s = (Inr lang, s1) \<Longrightarrow>
   translate src lang apiKey
     (elizaLogger_info (ascii ''Detected target language: '' @ lang) s1) = (Inr t, s2) \<Longrightarrow>
   handler_with detect translate runtime message state callback s =
     (Inr None, send callback t s2)"
  by (simp add: handler_with_def handler_try_def)

lemma handler_cases:
  "fst (handler_with detect translate runtime message state callback s) = Inr (Some False) \<or>
   (\<exists>apiKey src c lang s1 t s2.
      reaches_detection runtime message state apiKey src c \<and>
      detect (text_or_empty c) apiKey s = (Inr lang, s1) \<and>
      translate src lang apiKey
        (elizaLogger_info (ascii ''Detected target language: '' @ lang) s1) = (Inr t, s2) \<and>
      handler_with detect translate runtime message state callback s =
        (Inr None, send callback t s2))"
proof (cases "truthy (setting_OPENAI_API_KEY runtime)")
  case None
  then show ?thesis by (simp add: handler_no_key)
next
  case (Some apiKey)
  note key = this
  show ?thesis
  proof (cases "state_or_compose runtime message state")
    case (Inl e)
    with key show ?thesis by (simp add: handler_compose_fails)
  next
    case (Inr st)
    note st = this
    show ?thesis
    proof (cases "length (recentMessagesData st) < 2")
      case True
      with key st show ?thesis by (simp add: handler_few_messages)
    next
      case False
      note len = this
      show ?thesis
      proof (cases "guarded_text (last_agent_message runtime (recentMessagesData st))")
        case None
        with key st len show ?thesis by (simp add: handler_no_agent_text)
      next
        case (Some src)
        note src = this
        show ?thesis
        proof (cases "memory_content message")
          case None
          with key st len src show ?thesis by (simp add: handler_no_content)
        next
          case (Some c)
          note c = this
          have reach: "reaches_detection runtime message state apiKey src c"
            using key st len src c by (simp add: reaches_detection_def)
          obtain d s1 where d: "detect (text_or_empty c) apiKey s = (d, s1)"
            by (cases "detect (text_or_empty c) apiKey s")
          show ?thesis
          proof (cases d)
            case (Inl e)
            with key st len src c d show ?thesis by (simp add: handler_detect_fails)
          next
            case (Inr lang)
            note lang = this
            obtain r s2 where r: "translate src lang apiKey
                (elizaLogger_info (ascii ''Detected target language: '' @ lang) s1) = (r, s2)"
              by (cases "translate src lang apiKey
                (elizaLogger_info (ascii ''Detected target language: '' @ lang) s1)")
            show ?thesis
            proof (cases r)
              case (Inl e)
              with key st len src c d lang r show ?thesis
                by (simp add: handler_translate_fails)
            next
              case (Inr t)
              with key st len src c d lang r
              have "handler_with detect translate runtime message state callback s =
                  (Inr None, send callback t s2)"
                by (simp add: handler_success)
              with reach d lang r Inr show ?thesis by blast
            qed
          qed
        qed
      qed
    qed
  qed
qed

lemma requests_send [simp]: "requests (send callback t s) = requests s"
  by (simp add: send_def)

lemma requests_elizaLogger_error [simp]: "requests (elizaLogger_error l e s) = requests s"
  by (simp add: elizaLogger_error_def)

lemma requests_elizaLogger_info [simp]: "requests (elizaLogger_info l s) = requests s"
  by (simp add: elizaLogger_info_def)

lemma detectLanguage_miss_state:
  "detectLanguageByKeywords toLowerCase text = None \<Longrightarrow> classifier_reply api text apiKey s = Inr c \<Longrightarrow>
   detectLanguage toLowerCase api text apiKey s =
     (Inr (if toLowerCase (trim c) = [] then DEFAULT_LANGUAGE else toLowerCase (trim c)),
      s\<lparr>requests := requests s @ [detection_call text apiKey default_model]\<rparr>)"
  by (simp add: detectLanguage_def classifier_reply_def detectLanguageByPrompt_replies)

lemma reaches_detectionD:
  "reaches_detection runtime message state apiKey src c \<Longrightarrow>
   \<exists>st. truthy (setting_OPENAI_API_KEY runtime) = Some apiKey \<and>
        state_or_compose runtime message state = Inr st \<and>
        \<not> length (recentMessagesData st) < 2 \<and>
        guarded_text (last_agent_message runtime (recentMessagesData st)) = Some src \<and>
        memory_content message = Some c"
  by (auto simp: reaches_detection_def split: sum.splits)

lemma handler_with_requests:
  assumes "reaches_detection runtime message state apiKey src c"
    and "detect (text_or_empty c) apiKey s = (Inr lang, s1)"
  shows "requests (snd (handler_with detect translate runtime message state callback s)) =
         requests (snd (translate src lang apiKey
            (elizaLogger_info (ascii ''Detected target language: '' @ lang) s1)))"
proof -
  from reaches_detectionD [OF assms(1)] obtain st where
    h: "truthy (setting_OPENAI_API_KEY runtime) = Some apiKey"
       "state_or_compose runtime message state = Inr st"
       "\<not> length (recentMessagesData st) < 2"
       "guarded_text (last_agent_message runtime (recentMessagesData st)) = Some src"
       "memory_content message = Some c"
    by blast
  obtain r s2 where r: "translate src lang apiKey
      (elizaLogger_info (ascii ''Detected target language: '' @ lang) s1) = (r, s2)"
    by (cases "translate src lang apiKey
      (elizaLogger_info (ascii ''Detected target language: '' @ lang) s1)")
  show ?thesis
  proof (cases r)
    case (Inl e)
    with r have "translate src lang apiKey
      (elizaLogger_info (ascii ''Detected target language: '' @ lang) s1) = (Inl e, s2)" by simp
    from handler_translate_fails [where detect = detect and translate = translate, OF h assms(2) this] r
    show ?thesis by simp
  next
    case (Inr t)
    with r have "translate src lang apiKey
      (elizaLogger_info (ascii ''Detected target language: '' @ lang) s1) = (Inr t, s2)" by simp
    from handler_success [where detect = detect and translate = translate, OF h assms(2) this] r
    show ?thesis by simp
  qed
qed

text \<open>
  Claim C8. With no keyword hit and a classifier reply that normalizes to a non-empty
  string \<open>r\<close>, whatever \<open>r\<close> is, \<open>detectLanguage\<close> returns \<open>r\<close>; \<open>translateText\<close> called with
  target language \<open>r\<close> issues one call whose system prompt embeds \<open>r\<close>; and the handler,
  once it reaches detection, issues exactly the classifier's call and then the translation
  call for \<open>r\<close>. No step checks \<open>r\<close> against the supported languages.
\<close>

theorem classifier_output_passed_through:
  assumes "detectLanguageByKeywords toLowerCase text = None"
    and "classifier_reply api text apiKey s = Inr c"
    and "toLowerCase (trim c) = r"
    and "r \<noteq> []"
  shows "fst (detectLanguage toLowerCase api text apiKey s) = Inr r \<and>
         requests (snd (translateText api src r key model s')) =
           requests s' @ [translation_call src r key model] \<and>
         call_messages (translation_call src r key model) =
           [ChatMessage (ascii ''system'') (translation_prompt r), ChatMessage (ascii ''user'') src] \<and>
         str_includes (translation_prompt r) r \<and>
         (reaches_detection runtime message state apiKey agentText cnt \<and> text_or_empty cnt = text \<longrightarrow>
            requests (snd (handler toLowerCase api runtime message state callback s)) =
              requests s @ [detection_call text apiKey default_model,
                            translation_call agentText r apiKey default_model])"
proof (intro conjI impI)
  from assms show "fst (detectLanguage toLowerCase api text apiKey s) = Inr r"
    by (simp add: detectLanguage_miss_replies)
  show "requests (snd (translateText api src r key model s')) =
           requests s' @ [translation_call src r key model]"
    by (rule translateText_requests)
  show "call_messages (translation_call src r key model) =
           [ChatMessage (ascii ''system'') (translation_prompt r), ChatMessage (ascii ''user'') src]"
    by (simp add: translation_call_def)
  show "str_includes (translation_prompt r) r"
    unfolding str_includes_iff translation_prompt_def by blast
next
  assume a: "reaches_detection runtime message state apiKey agentText cnt \<and> text_or_empty cnt = text"
  from assms have d: "detectLanguage toLowerCase api (text_or_empty cnt) apiKey s =
      (Inr r, s\<lparr>requests := requests s @ [detection_call text apiKey default_model]\<rparr>)"
    using a by (simp add: detectLanguage_miss_state)
  from a have reach: "reaches_detection runtime message state apiKey agentText cnt" by simp
  show "requests (snd (handler toLowerCase api runtime message state callback s)) =
              requests s @ [detection_call text apiKey default_model,
                            translation_call agentText r apiKey default_model]"
    unfolding handler_def
      handler_with_requests [where detect = "detectLanguage toLowerCase api" and
        translate = "\<lambda>txt targetLanguage apiKey. translateText api txt targetLanguage apiKey default_model",
        OF reach d]
    by (simp add: translateText_requests)
qed

lemma trim_French: "toLowerCase_ascii (trim (ascii '' French '')) = ascii ''french''"
  by (simp add: trim_def ascii_def is_js_space_def toLowerCase_ascii_def lower_unit_def)

theorem classifier_output_passed_through_witness:
  "detectLanguageByKeywords toLowerCase_ascii (ascii ''translate this'') = None \<and>
   classifier_reply (api_replying (ascii '' French '')) (ascii ''translate this'')
      (ascii ''mock-api-key'') io0 = Inr (ascii '' French '') \<and>
   toLowerCase_ascii (trim (ascii '' French '')) = ascii ''french'' \<and>
   ascii ''french'' \<notin> set getSupportedLanguages \<and>
   fst (detectLanguage toLowerCase_ascii (api_replying (ascii '' French '')) (ascii ''translate this'')
      (ascii ''mock-api-key'') io0) = Inr (ascii ''french'') \<and>
   requests (snd (handler toLowerCase_ascii (api_replying (ascii '' French '')) mockRuntime mockMessage
      (Some mockState) True io0)) =
     [detection_call (ascii ''translate this'') (ascii ''mock-api-key'') default_model,
      translation_call (ascii ''Agent message to translate'') (ascii ''french'')
        (ascii ''mock-api-key'') default_model]"
proof -
  let ?api = "api_replying (ascii '' French '')"
  have k: "detectLanguageByKeywords toLowerCase_ascii (ascii ''translate this'') = None"
    by (simp add: run_defs)
  have c: "classifier_reply ?api (ascii ''translate this'') (ascii ''mock-api-key'') io0 =
      Inr (ascii '' French '')"
    by (simp add: classifier_reply_def api_replying_def reply_content_def first_content_def)
  have ne: "ascii ''french'' \<noteq> []" by (simp add: ascii_def)
  have out: "ascii ''french'' \<notin> set getSupportedLanguages"
    by (simp add: getSupportedLanguages_def LANGUAGE_KEYWORDS_def ascii_def)
  have reach: "reaches_detection mockRuntime mockMessage (Some mockState) (ascii ''mock-api-key'')
      (ascii ''Agent message to translate'') (Content (Some (ascii ''translate this'')))"
    by (simp add: reaches_detection_def mockRuntime_def mockMessage_def mockState_def
        state_or_compose_def last_agent_message_def guarded_text_def ascii_def)
  have t: "text_or_empty (Content (Some (ascii ''translate this''))) = ascii ''translate this''"
    by (simp add: text_or_empty_def ascii_def)
  from classifier_output_passed_through [OF k c trim_French ne,
      of "ascii ''Hello''" "ascii ''mock-api-key''" default_model io0 mockRuntime mockMessage "Some mockState"
         "ascii ''Agent message to translate''" "Content (Some (ascii ''translate this''))" True]
    reach t k c trim_French out
  show ?thesis by (simp add: io0_def)
qed

text \<open>
  Claim C10. The handler resolves with \<open>false\<close> or with \<open>undefined\<close>, never with \<open>true\<close>.
  It is \<open>false\<close> when the API key is missing, when there are fewer than two prior messages,
  when no agent message with a text is found, when detection throws and when translation
  throws; it is \<open>undefined\<close> when the translation has been delivered, and only then.
\<close>

theorem handler_return_value:
  "(fst (handler_with detect translate runtime message state callback s) = Inr (Some False) \<or>
    fst (handler_with detect translate runtime message state callback s) = Inr None) \<and>
   (truthy (setting_OPENAI_API_KEY runtime) = None \<longrightarrow>
      fst (handler_with detect translate runtime message state callback s) = Inr (Some False)) \<and>
   (state_or_compose runtime message state = Inr st \<and> length (recentMessagesData st) < 2 \<longrightarrow>
      fst (handler_with detect translate runtime message state callback s) = Inr (Some False)) \<and>
   (state_or_compose runtime message state = Inr st \<and>
    guarded_text (last_agent_message runtime (recentMessagesData st)) = None \<longrightarrow>
      fst (handler_with detect translate runtime message state callback s) = Inr (Some False)) \<and>
   (reaches_detection runtime message state apiKey src c \<and>
    detect (text_or_empty c) apiKey s = (Inl e, s1) \<longrightarrow>
      fst (handler_with detect translate runtime message state callback s) = Inr (Some False)) \<and>
   (reaches_detection runtime message state apiKey src c \<and>
    detect (text_or_empty c) apiKey s = (Inr lang, s1) \<and>
    translate src lang apiKey
      (elizaLogger_info (ascii ''Detected target language: '' @ lang) s1) = (Inl e, s2) \<longrightarrow>
      fst (handler_with detect translate runtime message state callback s) = Inr (Some False)) \<and>
   (reaches_detection runtime message state apiKey src c \<and>
    detect (text_or_empty c) apiKey s = (Inr lang, s1) \<and>
    translate src lang apiKey
      (elizaLogger_info (ascii ''Detected target language: '' @ lang) s1) = (Inr t, s2) \<longrightarrow>
      fst (handler_with detect translate runtime message state callback s) = Inr None) \<and>
   (fst (handler_with detect translate runtime message state callback s) = Inr None \<longrightarrow>
      (\<exists>apiKey' src' c' lang' s1' t' s2'.
         reaches_detection runtime message state apiKey' src' c' \<and>
         detect (text_or_empty c') apiKey' s = (Inr lang', s1') \<and>
         translate src' lang' apiKey'
           (elizaLogger_info (ascii ''Detected target language: '' @ lang') s1') = (Inr t', s2')))"
proof (intro conjI impI)
  show "fst (handler_with detect translate runtime message state callback s) = Inr (Some False) \<or>
    fst (handler_with detect translate runtime message state callback s) = Inr None"
    using handler_cases [of detect translate runtime message state callback s] by auto
next
  assume "truthy (setting_OPENAI_API_KEY runtime) = None"
  then show "fst (handler_with detect translate runtime message state callback s) = Inr (Some False)"
    by (simp add: handler_no_key)
next
  assume a: "state_or_compose runtime message state = Inr st \<and> length (recentMessagesData st) < 2"
  show "fst (handler_with detect translate runtime message state callback s) = Inr (Some False)"
  proof (cases "truthy (setting_OPENAI_API_KEY runtime)")
    case None
    then show ?thesis by (simp add: handler_no_key)
  next
    case (Some k)
    with a show ?thesis by (simp add: handler_few_messages)
  qed
next
  assume a: "state_or_compose runtime message state = Inr st \<and>
    guarded_text (last_agent_message runtime (recentMessagesData st)) = None"
  show "fst (handler_with detect translate runtime message state callback s) = Inr (Some False)"
  proof (cases "truthy (setting_OPENAI_API_KEY runtime)")
    case None
    then show ?thesis by (simp add: handler_no_key)
  next
    case (Some k)
    show ?thesis
    proof (cases "length (recentMessagesData st) < 2")
      case True
      with a Some show ?thesis by (simp add: handler_few_messages)
    next
      case False
      with a Some show ?thesis by (simp add: handler_no_agent_text)
    qed
  qed
next
  assume a: "reaches_detection runtime message state apiKey src c \<and>
    detect (text_or_empty c) apiKey s = (Inl e, s1)"
  from a reaches_detectionD obtain st' where
    "truthy (setting_OPENAI_API_KEY runtime) = Some apiKey"
    "state_or_compose runtime message state = Inr st'"
    "\<not> length (recentMessagesData st') < 2"
    "guarded_text (last_agent_message runtime (recentMessagesData st')) = Some src"
    "memory_content message = Some c"
    by blast
  with a show "fst (handler_with detect translate runtime message state callback s) = Inr (Some False)"
    by (simp add: handler_detect_fails)
next
  assume a: "reaches_detection runtime message state apiKey src c \<and>
    detect (text_or_empty c) apiKey s = (Inr lang, s1) \<and>
    translate src lang apiKey
      (elizaLogger_info (ascii ''Detected target language: '' @ lang) s1) = (Inl e, s2)"
  from a reaches_detectionD obtain st' where
    "truthy (setting_OPENAI_API_KEY runtime) = Some apiKey"
    "state_or_compose runtime message state = Inr st'"
    "\<not> length (recentMessagesData st') < 2"
    "guarded_text (last_agent_message runtime (recentMessagesData st')) = Some src"
    "memory_content message = Some c"
    by blast
  with a show "fst (handler_with detect translate runtime message state callback s) = Inr (Some False)"
    by (simp add: handler_translate_fails)
next
  assume a: "reaches_detection runtime message state apiKey src c \<and>
    detect (text_or_empty c) apiKey s = (Inr lang, s1) \<and>
    translate src lang apiKey
      (elizaLogger_info (ascii ''Detected target language: '' @ lang) s1) = (Inr t, s2)"
  from a reaches_detectionD obtain st' where
    "truthy (setting_OPENAI_API_KEY runtime) = Some apiKey"
    "state_or_compose runtime message state = Inr st'"
    "\<not> length (recentMessagesData st') < 2"
    "guarded_text (last_agent_message runtime (recentMessagesData st')) = Some src"
    "memory_content message = Some c"
    by blast
  with a show "fst (handler_with detect translate runtime message state callback s) = Inr None"
    by (simp add: handler_success)
next
  assume a: "fst (handler_with detect translate runtime message state callback s) = Inr None"
  with handler_cases [of detect translate runtime message state callback s]
  obtain apiKey' src' c' lang' s1' t' s2' where
    "reaches_detection runtime message state apiKey' src' c'"
    "detect (text_or_empty c') apiKey' s = (Inr lang', s1')"
    "translate src' lang' apiKey'
       (elizaLogger_info (ascii ''Detected target language: '' @ lang') s1') = (Inr t', s2')"
    by auto
  then have "reaches_detection runtime message state apiKey' src' c' \<and>
         detect (text_or_empty c') apiKey' s = (Inr lang', s1') \<and>
         translate src' lang' apiKey'
           (elizaLogger_info (ascii ''Detected target language: '' @ lang') s1') = (Inr t', s2')"
    by simp
  then show "\<exists>apiKey' src' c' lang' s1' t' s2'.
         reaches_detection runtime message state apiKey' src' c' \<and>
         detect (text_or_empty c') apiKey' s = (Inr lang', s1') \<and>
         translate src' lang' apiKey'
           (elizaLogger_info (ascii ''Detected target language: '' @ lang') s1') = (Inr t', s2')"
    by (intro exI)
qed

lemmas fixture_defs = reaches_detection_def mockRuntime_def mockMessage_def mockState_def
  state_or_compose_def last_agent_message_def guarded_text_def text_or_empty_def
  mockResolved_def mockRejected_def

theorem handler_return_value_witness:
  "fst (handler_with (\<lambda>_ _. mockResolved (ascii ''japanese'')) (\<lambda>_ _ _. mockResolved (ascii ''Bonjour''))
         (mockRuntime\<lparr>setting_OPENAI_API_KEY := None\<rparr>) mockMessage (Some mockState) True io0)
     = Inr (Some False) \<and>
   fst (handler_with (\<lambda>_ _. mockResolved (ascii ''japanese'')) (\<lambda>_ _ _. mockResolved (ascii ''Bonjour''))
         mockRuntime mockMessage (Some (AgentState [])) True io0)
     = Inr (Some False) \<and>
   fst (handler_with (\<lambda>_ _. mockResolved (ascii ''japanese'')) (\<lambda>_ _ _. mockResolved (ascii ''Bonjour''))
         mockRuntime mockMessage
         (Some (AgentState
            [Memory (ascii ''user-id'') (Some (Content (Some (ascii ''User message 1'')))),
             Memory (ascii ''user-id'') (Some (Content (Some (ascii ''User message 2''))))]))
         True io0)
     = Inr (Some False) \<and>
   fst (handler_with (\<lambda>_ _. mockRejected (ascii ''Language detection error''))
         (\<lambda>_ _ _. mockResolved (ascii ''Bonjour''))
         mockRuntime mockMessage (Some mockState) True io0)
     = Inr (Some False) \<and>
   fst (handler_with (\<lambda>_ _. mockResolved (ascii ''japanese''))
         (\<lambda>_ _ _. mockRejected (ascii ''Translation error''))
         mockRuntime mockMessage (Some mockState) True io0)
     = Inr (Some False) \<and>
   fst (handler_with (\<lambda>_ _. mockResolved (ascii ''japanese'')) (\<lambda>_ _ _. mockResolved (ascii ''Bonjour''))
         mockRuntime mockMessage (Some mockState) True io0)
     = Inr None"
proof -
  let ?D = "\<lambda>(_::jsstring) (_::jsstring). mockResolved (ascii ''japanese'') :: io \<Rightarrow> (js_error + jsstring) \<times> io"
  let ?DX = "\<lambda>(_::jsstring) (_::jsstring). mockRejected (ascii ''Language detection error'') :: io \<Rightarrow> (js_error + jsstring) \<times> io"
  let ?T = "\<lambda>(_::jsstring) (_::jsstring) (_::jsstring). mockResolved (ascii ''Bonjour'') :: io \<Rightarrow> (js_error + jsstring) \<times> io"
  let ?TX = "\<lambda>(_::jsstring) (_::jsstring) (_::jsstring). mockRejected (ascii ''Translation error'') :: io \<Rightarrow> (js_error + jsstring) \<times> io"
  let ?key = "ascii ''mock-api-key''"
  let ?src = "ascii ''Agent message to translate''"
  let ?c = "Content (Some (ascii ''translate this''))"
  let ?users = "AgentState
            [Memory (ascii ''user-id'') (Some (Content (Some (ascii ''User message 1'')))),
             Memory (ascii ''user-id'') (Some (Content (Some (ascii ''User message 2''))))]"
  have reach: "reaches_detection mockRuntime mockMessage (Some mockState) ?key ?src ?c"
    by (simp add: fixture_defs ascii_def)
  have w1: "fst (handler_with ?D ?T (mockRuntime\<lparr>setting_OPENAI_API_KEY := None\<rparr>) mockMessage
        (Some mockState) True io0) = Inr (Some False)"
    using handler_return_value [where detect = ?D and translate = ?T and
        runtime = "mockRuntime\<lparr>setting_OPENAI_API_KEY := None\<rparr>" and message = mockMessage and
        state = "Some mockState" and callback = True and s = io0]
    by simp
  have w2: "fst (handler_with ?D ?T mockRuntime mockMessage (Some (AgentState [])) True io0) =
      Inr (Some False)"
    using handler_return_value [where detect = ?D and translate = ?T and
        runtime = mockRuntime and message = mockMessage and
        state = "Some (AgentState [])" and callback = True and s = io0 and st = "AgentState []"]
    by (simp add: state_or_compose_def)
  have w3: "fst (handler_with ?D ?T mockRuntime mockMessage (Some ?users) True io0) =
      Inr (Some False)"
    using handler_return_value [where detect = ?D and translate = ?T and
        runtime = mockRuntime and message = mockMessage and
        state = "Some ?users" and callback = True and s = io0 and st = ?users]
    by (simp add: fixture_defs ascii_def)
  have w4: "fst (handler_with ?DX ?T mockRuntime mockMessage (Some mockState) True io0) =
      Inr (Some False)"
    using handler_return_value [where detect = ?DX and translate = ?T and
        runtime = mockRuntime and message = mockMessage and
        state = "Some mockState" and callback = True and s = io0 and apiKey = ?key and
        src = ?src and c = ?c and e = "Error (ascii ''Language detection error'')" and ?s1.0 = io0]
      reach
    by (simp add: mockRejected_def)
  have w5: "fst (handler_with ?D ?TX mockRuntime mockMessage (Some mockState) True io0) =
      Inr (Some False)"
    using handler_return_value [where detect = ?D and translate = ?TX and
        runtime = mockRuntime and message = mockMessage and
        state = "Some mockState" and callback = True and s = io0 and apiKey = ?key and
        src = ?src and c = ?c and e = "Error (ascii ''Translation error'')" and ?s1.0 = io0 and
        lang = "ascii ''japanese''" and
        ?s2.0 = "elizaLogger_info (ascii ''Detected target language: '' @ ascii ''japanese'') io0"]
      reach
    by (simp add: mockRejected_def mockResolved_def)
  have w6: "fst (handler_with ?D ?T mockRuntime mockMessage (Some mockState) True io0) = Inr None"
    using handler_return_value [where detect = ?D and translate = ?T and
        runtime = mockRuntime and message = mockMessage and
        state = "Some mockState" and callback = True and s = io0 and apiKey = ?key and
        src = ?src and c = ?c and ?s1.0 = io0 and
        lang = "ascii ''japanese''" and t = "ascii ''Bonjour''" and
        ?s2.0 = "elizaLogger_info (ascii ''Detected target language: '' @ ascii ''japanese'') io0"]
      reach
    by (simp add: mockResolved_def)
  from w1 w2 w3 w4 w5 w6 show ?thesis by blast
qed

end
